theory Spec2Isabelle
  imports Complex_Main
begin

section \<open>Values received from the backend\<close>

text \<open>
  The dashboard reads every backend answer with \<^verbatim>\<open>res.json()\<close>, so the values it
  handles are JSON values. A number is identified with the decimal it denotes (rounding
  to a double is not modelled); \<^verbatim>\<open>JSON.parse\<close> never yields NaN. An object is a
  finite map from keys to values; a key that is absent reads as \<^verbatim>\<open>undefined\<close>, which
  is \<open>None\<close> here.
\<close>

datatype json =
    JNull
  | JBool bool
  | JNum real
  | JStr string
  | JArr "json list"
  | JObj "(string \<times> json) list"




section \<open>ProductCard (frontend/src/app/page.tsx)\<close>










section \<open>Scrape proxy (route handler for POST /api/scrape)\<close>

text \<open>
  A value a JavaScript \<^verbatim>\<open>catch\<close> can receive: an instance of \<^verbatim>\<open>Error\<close> with its name
  and message (a \<^verbatim>\<open>DOMException\<close> is one), or any other thrown value, given by the
  string \<^verbatim>\<open>String(v)\<close> makes of it.
\<close>

datatype js_thrown =
    ErrorObject string string
  | OtherThrown string

fun is_Error :: "js_thrown \<Rightarrow> bool" where
  "is_Error (ErrorObject n m) = True"
| "is_Error (OtherThrown s) = False"

fun error_name :: "js_thrown \<Rightarrow> string" where
  "error_name (ErrorObject n m) = n"
| "error_name (OtherThrown s) = []"

text \<open>\<^verbatim>\<open>String(err)\<close>: for an Error, \<^verbatim>\<open>Error.prototype.toString\<close>.\<close>

fun String_of :: "js_thrown \<Rightarrow> string" where
  "String_of (ErrorObject n m) =
     (if m = [] then n else if n = [] then m else n @ '': '' @ m)"
| "String_of (OtherThrown s) = s"

text \<open>
  What the backend does with one forwarded request, as \<^verbatim>\<open>fetch\<close> and \<^verbatim>\<open>res.json()\<close>
  see it: it answers with a status and a body, complete after so many milliseconds
  (the body is JSON, or text on which \<^verbatim>\<open>res.json()\<close> throws a SyntaxError with the
  given message); or the connection fails after so many milliseconds with the given
  error; or nothing ever comes back.
\<close>

datatype reply_body = Json json | NotJson string

datatype backend_run =
    Answers nat nat reply_body
  | Breaks nat js_thrown
  | Hangs

text \<open>
  \<^verbatim>\<open>signal: AbortSignal.timeout(120_000)\<close>: a request not complete when the timer fires
  is aborted, and the pending \<^verbatim>\<open>fetch\<close> or \<^verbatim>\<open>res.json()\<close> rejects with a DOMException
  named TimeoutError.
\<close>

definition TIMEOUT_MS :: nat where
  "TIMEOUT_MS = 120000"

definition TimeoutError :: js_thrown where
  "TimeoutError = ErrorObject ''TimeoutError'' ''The operation was aborted due to timeout''"

fun timed_out :: "nat \<Rightarrow> backend_run \<Rightarrow> bool" where
  "timed_out limit (Answers t st b) = (limit \<le> t)"
| "timed_out limit (Breaks t e) = (limit \<le> t)"
| "timed_out limit Hangs = True"

text \<open>
  The body of the \<^verbatim>\<open>try\<close> block up to \<^verbatim>\<open>const data = await res.json()\<close>: the status and
  the parsed data, or the value thrown.
\<close>

fun fetch_json :: "nat \<Rightarrow> backend_run \<Rightarrow> js_thrown + (nat \<times> json)" where
  "fetch_json limit (Answers t st b) =
     (if limit \<le> t then Inl TimeoutError
      else (case b of
              Json data \<Rightarrow> Inr (st, data)
            | NotJson msg \<Rightarrow> Inl (ErrorObject ''SyntaxError'' msg)))"
| "fetch_json limit (Breaks t e) = (if limit \<le> t then Inl TimeoutError else Inl e)"
| "fetch_json limit Hangs = Inl TimeoutError"

record http_response =
  status :: nat
  body :: json

definition detail :: "string \<Rightarrow> json" where
  "detail msg = JObj [(''detail'', JStr msg)]"

text \<open>
  The \<^verbatim>\<open>catch (err: unknown)\<close> block: 408 for \<^verbatim>\<open>err instanceof Error && err.name ===
  "TimeoutError"\<close>, 502 with \<^verbatim>\<open>String(err)\<close> for anything else.
\<close>

definition on_error :: "js_thrown \<Rightarrow> http_response" where
  "on_error err =
     (if is_Error err \<and> error_name err = ''TimeoutError''
      then \<lparr> status = 408,
             body = detail ''Scrape timed out after 2 minutes. The page took too long to load.'' \<rparr>
      else \<lparr> status = 502, body = detail (String_of err) \<rparr>)"

text \<open>
  \<^verbatim>\<open>export async function POST(request)\<close>. The request's body is \<open>None\<close> when
  \<^verbatim>\<open>request.json()\<close> throws, which happens before the \<^verbatim>\<open>try\<close>: the handler itself then
  throws. Beside the outcome the model returns the bodies the handler sent to the
  backend's /scrape, one entry per \<^verbatim>\<open>fetch\<close> call, in order.
\<close>

datatype handler_outcome = Responds http_response | Throws js_thrown

definition POST :: "(json \<Rightarrow> backend_run) \<Rightarrow> json option \<Rightarrow> handler_outcome \<times> json list" where
  "POST backend request =
     (case request of
        None \<Rightarrow> (Throws (ErrorObject ''SyntaxError'' ''Unexpected end of JSON input''), [])
      | Some b \<Rightarrow>
          (case fetch_json TIMEOUT_MS (backend b) of
             Inr (st, data) \<Rightarrow> (Responds \<lparr> status = st, body = data \<rparr>, [b])
           | Inl err \<Rightarrow> (Responds (on_error err), [b])))"

section \<open>ComparePanel (frontend/src/components/ComparePanel.tsx)\<close>

text \<open>
  The question is text the user typed, and \<^verbatim>\<open>trim\<close> depends on which characters it
  holds: a JavaScript string is modelled here as its list of UTF-16 code units.
\<close>

type_synonym js_string = "nat list"

definition js :: "string \<Rightarrow> js_string" where
  "js s = map of_char s"

text \<open>
  The code units \<^verbatim>\<open>String.prototype.trim\<close> removes: ECMAScript's WhiteSpace (TAB, VT,
  FF, ZWNBSP and the space separators) and LineTerminator (LF, CR, LS, PS).
\<close>

definition is_js_whitespace :: "nat \<Rightarrow> bool" where
  "is_js_whitespace c =
     (c \<in> {9, 10, 11, 12, 13, 32, 160, 5760, 8232, 8233, 8239, 8287, 12288, 65279}
      \<or> (8192 \<le> c \<and> c \<le> 8202))"


definition blank :: "js_string \<Rightarrow> bool" where
  "blank s = list_all is_js_whitespace s"

record answer_side =
  answer :: js_string
  tokens_used :: nat
  label :: js_string

record CompareResult =
  question :: js_string
  without_context :: answer_side
  with_context :: answer_side






section \<open>Product Store and scrapeAndIndex\<close>

text \<open>
  Modelled from the spec: the Product and Summary records, the Product Store's upsert
  and \<^verbatim>\<open>scrapeAndIndex\<close>. They live in the backend (the README's backend/main.py, db.py,
  scraper.py, summarizer.py), which is not among the sources; the dashboard only calls
  POST /scrape with \<^verbatim>\<open>{url}\<close> or \<^verbatim>\<open>{url, force_refresh: true}\<close> and reads
  \<^verbatim>\<open>data.status === "cached"\<close>. What follows is sections 3, 4.1 to 4.3, 6 and 7 of the
  spec: the page fetcher, the extractor, the summarizer (one LLM call per invocation) and
  the URL normalization are collaborators, given as parameters; time is read once per
  call and passed as \<open>now\<close>.
\<close>

datatype stock_status = in_stock | out_of_stock | unknown

datatype sentiment = positive | neutral | negative

record Summary =
  sum_title :: string
  sum_price :: string
  sum_stock_status :: stock_status
  sum_sentiment :: sentiment
  why_buy :: string
  best_for_intent :: string
  cta_url :: string
  sum_confidence :: real

record RawSignals =
  raw_title :: string
  price_text :: string
  cta_text :: string
  review_excerpts :: "string list"


datatype FetchError = FetchTimeout | Blocked | NotFound

datatype ExtractionError = EmptyContent

datatype SummarizationError = NoResponse


record 'page collaborators =
  normalize :: "string \<Rightarrow> string"
  fetch :: "string \<Rightarrow> FetchError + 'page"
  extract_signals :: "'page \<Rightarrow> ExtractionError + RawSignals"
  summarize :: "RawSignals \<Rightarrow> SummarizationError + Summary"






section \<open>Artifact Generator\<close>

text \<open>
  Modelled from the spec: \<^verbatim>\<open>generateArtifacts\<close> (the README's backend/generator.py, not
  among the sources; the dashboard only displays \<^verbatim>\<open>data.llms_txt_preview\<close> and
  \<^verbatim>\<open>data.agent_map\<close>). Section 4.4 of the spec gives the content: a header block with
  the generation timestamp and the product count, then one section per product with
  its name as a link to \<^verbatim>\<open>cta_url\<close> or \<^verbatim>\<open>url\<close>, price, why-buy quote and best-for tag;
  the layout of the lines is the README's "The llms.txt Format". The generation
  timestamp is the clock's reading, already formatted, passed as \<open>generated\<close>. Products
  are rendered in the order of the input sequence; of the two policies the spec allows
  for a product without a summary, this model skips it.
\<close>












section \<open>Comparison Engine\<close>

text \<open>
  Modelled from the spec: \<^verbatim>\<open>compare\<close> (the backend's POST /compare, not among the
  sources; the dashboard's \<^verbatim>\<open>runComparison\<close> above is its only caller). Section 4.5 of
  the spec: a blank question fails before any LLM call; otherwise the LLM capability is
  invoked twice, with the same question verbatim and the same model configuration,
  first without and then with the serialized product snapshot as context; if either
  call fails the comparison fails and nothing is stored; otherwise one Comparison is
  appended to the history. The LLM capability, the model configuration and the
  serialized snapshot are parameters. The state keeps, beside the stored comparisons,
  the log of the requests made to the LLM.
\<close>

datatype LLMError = LLMTimeout | RateLimited | Transport

datatype ComparisonError = EmptyQuestion | LLMFailed LLMError

record 'cfg llm_request =
  req_config :: 'cfg
  req_question :: js_string
  req_context :: "string option"

record llm_answer =
  ans_answer :: js_string
  ans_tokens_used :: nat

record Comparison =
  cmp_id :: nat
  cmp_question :: js_string
  cmp_without_context :: llm_answer
  cmp_with_context :: llm_answer
  cmp_created_at :: nat

record 'cfg history =
  comparisons :: "Comparison list"
  llm_log :: "'cfg llm_request list"

text \<open>
  Modelled from the spec: \<^verbatim>\<open>compare(question, product_snapshot)\<close> (the backend's
  POST /compare, not among the sources), the two LLM calls made one after the other.
\<close>

definition compare ::
  "('cfg llm_request \<Rightarrow> LLMError + llm_answer) \<Rightarrow> 'cfg \<Rightarrow> nat \<Rightarrow> js_string \<Rightarrow> string
     \<Rightarrow> 'cfg history \<Rightarrow> (ComparisonError + Comparison) \<times> 'cfg history" where
  "compare llm cfg now q snapshot h =
     (if blank q then (Inl EmptyQuestion, h)
      else
        let r1 = \<lparr> req_config = cfg, req_question = q, req_context = None \<rparr>;
            h1 = h \<lparr> llm_log := llm_log h @ [r1] \<rparr>
        in case llm r1 of
             Inl e \<Rightarrow> (Inl (LLMFailed e), h1)
           | Inr a1 \<Rightarrow>
               (let r2 = \<lparr> req_config = cfg, req_question = q, req_context = Some snapshot \<rparr>;
                    h2 = h1 \<lparr> llm_log := llm_log h1 @ [r2] \<rparr>
                in case llm r2 of
                     Inl e \<Rightarrow> (Inl (LLMFailed e), h2)
                   | Inr a2 \<Rightarrow>
                       (let c = \<lparr> cmp_id = length (comparisons h2), cmp_question = q,
                                  cmp_without_context = a1, cmp_with_context = a2,
                                  cmp_created_at = now \<rparr>
                        in (Inr c, h2 \<lparr> comparisons := comparisons h2 @ [c] \<rparr>))))"

section \<open>Example values\<close>






definition demo_llm :: "string llm_request \<Rightarrow> LLMError + llm_answer" where
  "demo_llm r =
     (case req_context r of
        None \<Rightarrow> Inr \<lparr> ans_answer = js ''It depends.'', ans_tokens_used = 40 \<rparr>
      | Some ctx \<Rightarrow> Inr \<lparr> ans_answer = js ''Trail Shoe, $59.'', ans_tokens_used = 40 + length ctx \<rparr>)"

definition flaky_llm :: "string llm_request \<Rightarrow> LLMError + llm_answer" where
  "flaky_llm r =
     (case req_context r of
        None \<Rightarrow> Inr \<lparr> ans_answer = js ''It depends.'', ans_tokens_used = 40 \<rparr>
      | Some ctx \<Rightarrow> Inl RateLimited)"

section \<open>Staleness rule of the product card\<close>






section \<open>Timeout of the scrape proxy\<close>

lemma fetch_json_timed_out:
  "timed_out limit run \<Longrightarrow> fetch_json limit run = Inl TimeoutError"
  by (cases run) simp_all

lemma on_error_timeout:
  "on_error TimeoutError =
     \<lparr> status = 408,
       body = detail ''Scrape timed out after 2 minutes. The page took too long to load.'' \<rparr>"
  by (simp add: on_error_def TimeoutError_def)

lemma POST_requests: "length (snd (POST backend request)) \<le> 1"
  by (simp add: POST_def split: option.splits sum.splits)

lemma POST_one_request: "snd (POST backend (Some b)) = [b]"
  by (simp add: POST_def split: option.splits sum.splits)

text \<open>
  Claim C9. The scrape proxy bounds every scrape-and-summarize request by an explicit
  timeout of 120000 ms (two minutes). A request that is not complete by then is aborted
  and answered with HTTP 408 and the message "Scrape timed out after 2 minutes. The
  page took too long to load."; any other failure of the forwarded request is answered
  with 502 and the error's text, so the two are distinct. In every case the handler
  has sent the request body to the backend exactly once, and whatever the request it
  calls the backend at most once: nothing is retried.
\<close>

theorem POST_timeout:
  "TIMEOUT_MS = 2 * 60 * 1000
   \<and> (timed_out TIMEOUT_MS (backend b) \<longrightarrow>
        POST backend (Some b) =
          (Responds \<lparr> status = 408,
              body = detail ''Scrape timed out after 2 minutes. The page took too long to load.'' \<rparr>,
           [b]))
   \<and> (\<forall>err. fetch_json TIMEOUT_MS (backend b) = Inl err \<and> error_name err \<noteq> ''TimeoutError'' \<longrightarrow>
        POST backend (Some b) =
          (Responds \<lparr> status = 502, body = detail (String_of err) \<rparr>, [b]))
   \<and> snd (POST backend (Some b)) = [b]
   \<and> length (snd (POST backend request)) \<le> 1"
proof -
  have t: "TIMEOUT_MS = 2 * 60 * 1000" by (simp add: TIMEOUT_MS_def)
  have a: "timed_out TIMEOUT_MS (backend b) \<Longrightarrow>
        POST backend (Some b) =
          (Responds \<lparr> status = 408,
              body = detail ''Scrape timed out after 2 minutes. The page took too long to load.'' \<rparr>,
           [b])"
    by (simp add: POST_def fetch_json_timed_out on_error_timeout)
  have c: "fetch_json TIMEOUT_MS (backend b) = Inl err \<Longrightarrow> error_name err \<noteq> ''TimeoutError'' \<Longrightarrow>
        POST backend (Some b) =
          (Responds \<lparr> status = 502, body = detail (String_of err) \<rparr>, [b])" for err
    by (simp add: POST_def on_error_def)
  show ?thesis using t a c POST_one_request POST_requests by blast
qed

theorem POST_timeout_witness:
  "timed_out TIMEOUT_MS ((\<lambda>b. Hangs) (JObj [(''url'', JStr ''https://example.com/p'')]))
   \<and> POST (\<lambda>b. Hangs) (Some (JObj [(''url'', JStr ''https://example.com/p'')])) =
         (Responds \<lparr> status = 408,
              body = detail ''Scrape timed out after 2 minutes. The page took too long to load.'' \<rparr>,
          [JObj [(''url'', JStr ''https://example.com/p'')]])
   \<and> fetch_json TIMEOUT_MS (Breaks 35 (ErrorObject ''TypeError'' ''fetch failed'')) =
         Inl (ErrorObject ''TypeError'' ''fetch failed'')
   \<and> POST (\<lambda>b. Breaks 35 (ErrorObject ''TypeError'' ''fetch failed'')) (Some JNull) =
         (Responds \<lparr> status = 502, body = detail ''TypeError: fetch failed'' \<rparr>, [JNull])"
  using POST_timeout [of "\<lambda>b. Hangs" "JObj [(''url'', JStr ''https://example.com/p'')]"]
    POST_timeout [of "\<lambda>b. Breaks 35 (ErrorObject ''TypeError'' ''fetch failed'')" JNull]
  by (simp add: TIMEOUT_MS_def)

section \<open>Blank questions in the comparison panel\<close>






section \<open>Cache semantics of scrapeAndIndex\<close>



















section \<open>Atomicity of a comparison\<close>

text \<open>
  Claim C6. A comparison that \<^verbatim>\<open>compare\<close> stores is complete and two-sided: exactly two
  LLM requests were made for it, both with the question as given and the same model
  configuration, the first without and the second with the context, and its two sides
  are the answers to these two requests. A call that fails stores nothing, and a call
  fails whenever either of the two LLM requests fails.
\<close>

theorem compare_two_sided:
  "(\<forall>c h'. compare llm cfg now q snapshot h = (Inr c, h') \<longrightarrow>
        cmp_question c = q
        \<and> llm_log h' = llm_log h @
             [\<lparr> req_config = cfg, req_question = q, req_context = None \<rparr>,
              \<lparr> req_config = cfg, req_question = q, req_context = Some snapshot \<rparr>]
        \<and> llm \<lparr> req_config = cfg, req_question = q, req_context = None \<rparr>
             = Inr (cmp_without_context c)
        \<and> llm \<lparr> req_config = cfg, req_question = q, req_context = Some snapshot \<rparr>
             = Inr (cmp_with_context c)
        \<and> comparisons h' = comparisons h @ [c])
   \<and> (\<forall>e h'. compare llm cfg now q snapshot h = (Inl e, h') \<longrightarrow>
        comparisons h' = comparisons h)
   \<and> ((\<exists>e. llm \<lparr> req_config = cfg, req_question = q, req_context = None \<rparr> = Inl e)
       \<or> (\<exists>e. llm \<lparr> req_config = cfg, req_question = q, req_context = Some snapshot \<rparr> = Inl e)
       \<longrightarrow> (\<exists>e h'. compare llm cfg now q snapshot h = (Inl e, h')))"
proof (intro conjI allI impI)
  fix c h' assume a: "compare llm cfg now q snapshot h = (Inr c, h')"
  then show "cmp_question c = q"
    by (auto simp: compare_def Let_def split: if_splits sum.splits)
  from a show "llm_log h' = llm_log h @
             [\<lparr> req_config = cfg, req_question = q, req_context = None \<rparr>,
              \<lparr> req_config = cfg, req_question = q, req_context = Some snapshot \<rparr>]"
    by (auto simp: compare_def Let_def split: if_splits sum.splits)
  from a show "llm \<lparr> req_config = cfg, req_question = q, req_context = None \<rparr>
             = Inr (cmp_without_context c)"
    by (auto simp: compare_def Let_def split: if_splits sum.splits)
  from a show "llm \<lparr> req_config = cfg, req_question = q, req_context = Some snapshot \<rparr>
             = Inr (cmp_with_context c)"
    by (auto simp: compare_def Let_def split: if_splits sum.splits)
  from a show "comparisons h' = comparisons h @ [c]"
    by (auto simp: compare_def Let_def split: if_splits sum.splits)
next
  fix e h' assume "compare llm cfg now q snapshot h = (Inl e, h')"
  then show "comparisons h' = comparisons h"
    by (auto simp: compare_def Let_def split: if_splits sum.splits)
next
  assume "(\<exists>e. llm \<lparr> req_config = cfg, req_question = q, req_context = None \<rparr> = Inl e)
       \<or> (\<exists>e. llm \<lparr> req_config = cfg, req_question = q, req_context = Some snapshot \<rparr> = Inl e)"
  then show "\<exists>e h'. compare llm cfg now q snapshot h = (Inl e, h')"
    by (auto simp: compare_def Let_def split: if_splits sum.splits)
qed

theorem compare_two_sided_witness:
  "compare demo_llm ''llama-3.3-70b-versatile'' 7 (js ''best?'') ''[]''
       \<lparr> comparisons = [], llm_log = [] \<rparr>
     = (Inr \<lparr> cmp_id = 0, cmp_question = js ''best?'',
              cmp_without_context = \<lparr> ans_answer = js ''It depends.'', ans_tokens_used = 40 \<rparr>,
              cmp_with_context = \<lparr> ans_answer = js ''Trail Shoe, $59.'', ans_tokens_used = 42 \<rparr>,
              cmp_created_at = 7 \<rparr>,
        \<lparr> comparisons =
            [\<lparr> cmp_id = 0, cmp_question = js ''best?'',
               cmp_without_context = \<lparr> ans_answer = js ''It depends.'', ans_tokens_used = 40 \<rparr>,
               cmp_with_context = \<lparr> ans_answer = js ''Trail Shoe, $59.'', ans_tokens_used = 42 \<rparr>,
               cmp_created_at = 7 \<rparr>],
          llm_log =
            [\<lparr> req_config = ''llama-3.3-70b-versatile'', req_question = js ''best?'',
               req_context = None \<rparr>,
             \<lparr> req_config = ''llama-3.3-70b-versatile'', req_question = js ''best?'',
               req_context = Some ''[]'' \<rparr>] \<rparr>)
   \<and> flaky_llm \<lparr> req_config = ''llama-3.3-70b-versatile'', req_question = js ''best?'',
                  req_context = Some ''[]'' \<rparr> = Inl RateLimited
   \<and> compare flaky_llm ''llama-3.3-70b-versatile'' 7 (js ''best?'') ''[]''
       \<lparr> comparisons = [], llm_log = [] \<rparr>
     = (Inl (LLMFailed RateLimited),
        \<lparr> comparisons = [],
          llm_log =
            [\<lparr> req_config = ''llama-3.3-70b-versatile'', req_question = js ''best?'',
               req_context = None \<rparr>,
             \<lparr> req_config = ''llama-3.3-70b-versatile'', req_question = js ''best?'',
               req_context = Some ''[]'' \<rparr>] \<rparr>)"
proof -
  let ?h = "\<lparr> comparisons = [], llm_log = [] \<rparr> :: string history"
  have nb: "\<not> blank (js ''best?'')"
    by (simp add: blank_def js_def is_js_whitespace_def)
  have e1: "compare demo_llm ''llama-3.3-70b-versatile'' 7 (js ''best?'') ''[]'' ?h
     = (Inr \<lparr> cmp_id = 0, cmp_question = js ''best?'',
              cmp_without_context = \<lparr> ans_answer = js ''It depends.'', ans_tokens_used = 40 \<rparr>,
              cmp_with_context = \<lparr> ans_answer = js ''Trail Shoe, $59.'', ans_tokens_used = 42 \<rparr>,
              cmp_created_at = 7 \<rparr>,
        \<lparr> comparisons =
            [\<lparr> cmp_id = 0, cmp_question = js ''best?'',
               cmp_without_context = \<lparr> ans_answer = js ''It depends.'', ans_tokens_used = 40 \<rparr>,
               cmp_with_context = \<lparr> ans_answer = js ''Trail Shoe, $59.'', ans_tokens_used = 42 \<rparr>,
               cmp_created_at = 7 \<rparr>],
          llm_log =
            [\<lparr> req_config = ''llama-3.3-70b-versatile'', req_question = js ''best?'',
               req_context = None \<rparr>,
             \<lparr> req_config = ''llama-3.3-70b-versatile'', req_question = js ''best?'',
               req_context = Some ''[]'' \<rparr>] \<rparr>)"
    using nb by (simp add: compare_def demo_llm_def Let_def)
  have f: "flaky_llm \<lparr> req_config = ''llama-3.3-70b-versatile'', req_question = js ''best?'',
                  req_context = Some ''[]'' \<rparr> = Inl RateLimited"
    by (simp add: flaky_llm_def)
  have e2: "compare flaky_llm ''llama-3.3-70b-versatile'' 7 (js ''best?'') ''[]'' ?h
     = (Inl (LLMFailed RateLimited),
        \<lparr> comparisons = [],
          llm_log =
            [\<lparr> req_config = ''llama-3.3-70b-versatile'', req_question = js ''best?'',
               req_context = None \<rparr>,
             \<lparr> req_config = ''llama-3.3-70b-versatile'', req_question = js ''best?'',
               req_context = Some ''[]'' \<rparr>] \<rparr>)"
    using nb by (simp add: compare_def flaky_llm_def Let_def)
  have "\<exists>e h'. compare flaky_llm ''llama-3.3-70b-versatile'' 7 (js ''best?'') ''[]'' ?h = (Inl e, h')"
    using compare_two_sided [of flaky_llm "''llama-3.3-70b-versatile''" 7 "js ''best?''" "''[]''" ?h] f
    by blast
  then show ?thesis using e1 f e2 by simp
qed

section \<open>Determinism of the artifacts\<close>




end
